theory Spec2Isabelle
  imports Complex_Main "HOL-Library.Sublist" "HOL-Library.AList"
begin

section \<open>Shared schema (shared/schema.ts)\<close>

text \<open>
  JavaScript strings are modelled as \<open>string\<close>: one \<open>char\<close> per code unit, so the
  model covers the strings whose code units are below 256. Dates are their
  \<open>getTime()\<close> value, an integer number of milliseconds.
\<close>

type_synonym timestamp = int

datatype UserRoleType = ESG_ANALYST | AUDITOR | SUPPLIER | SUSTAINABILITY_MANAGER

datatype PageTypeEnum = DASHBOARD | REPORT | DATA_ENTRY | AUDIT | SETTINGS

datatype IntentTypeEnum = EXPLAIN | SUMMARIZE | NAVIGATE | GUIDE | VALIDATE

record SessionContext =
  page :: "string option"
  pageType :: "PageTypeEnum option"
  entityIds :: "string list option"
  metricIds :: "string list option"
  reportId :: "string option"
  userAction :: "string option"
  userRole :: "UserRoleType option"

record ActionItem =
  type_action :: string
  label :: string
  url :: "string option"

record MessageMetadata =
  tokensUsed :: "int option"
  latencyMs :: "int option"
  cached :: "bool option"

section \<open>String primitives of the host language\<close>

definition startsWith :: "string \<Rightarrow> string \<Rightarrow> bool" where
  "startsWith s searchString = prefix searchString s"

definition includes_str :: "string \<Rightarrow> string \<Rightarrow> bool" where
  "includes_str s searchString = sublist searchString s"

text \<open>
  \<open>toLowerCase\<close> on code units below 256: the ASCII capitals and the Latin-1
  capitals (0xC0 to 0xDE without the multiplication sign 0xD7) move up by 32.
\<close>

definition toLowerCase_char :: "char \<Rightarrow> char" where
  "toLowerCase_char c =
     (let n = (of_char c :: nat) in
      if (65 \<le> n \<and> n \<le> 90) \<or> (192 \<le> n \<and> n \<le> 222 \<and> n \<noteq> 215)
      then char_of (n + 32) else c)"

definition toLowerCase :: "string \<Rightarrow> string" where
  "toLowerCase s = map toLowerCase_char s"

text \<open>
  \<open>s.split(sep)\<close> for a one-character separator: the pieces between the
  occurrences of the separator, empty pieces kept; the empty string gives one
  empty piece.
\<close>

fun split_str :: "string \<Rightarrow> char \<Rightarrow> string list" where
  "split_str [] sep = [[]]"
| "split_str (c # cs) sep =
     (if c = sep then [] # split_str cs sep
      else (case split_str cs sep of
              [] \<Rightarrow> [[c]]
            | w # ws \<Rightarrow> (c # w) # ws))"

section \<open>Authentication service (services/authService.ts)\<close>

record DataScopeJwt =
  entities :: "string list"
  geographies :: "string list"

record JWTPayload =
  sub :: string
  org_id :: string
  role_jwt :: UserRoleType
  permissions :: "string list"
  data_scope :: DataScopeJwt
  exp_jwt :: int
  iat :: int

text \<open>
  \<open>verifyToken\<close> reads the clock (\<open>Date.now()\<close>) twice, first for \<open>exp\<close> and then
  for \<open>iat\<close>; the two readings are the first two arguments. \<open>null\<close> is \<open>None\<close>.
\<close>

definition verifyToken :: "int \<Rightarrow> int \<Rightarrow> string \<Rightarrow> JWTPayload option" where
  "verifyToken now now' token =
     (if token = [] \<or> \<not> startsWith token ''Bearer '' then None
      else Some \<lparr> sub = ''user-123'',
                  org_id = ''org-456'',
                  role_jwt = ESG_ANALYST,
                  permissions = [''read:esg_data'', ''read:reports'', ''read:audit_logs''],
                  data_scope = \<lparr> entities = [''entity-dubai-hq'', ''entity-abu-dhabi-plant''],
                                 geographies = [''UAE'', ''KSA''] \<rparr>,
                  exp_jwt = now div 1000 + 3600,
                  iat = now' div 1000 \<rparr>)"

text \<open>The part of a payload that identifies the principal: everything but the two clock fields.\<close>

definition principal_of :: "JWTPayload \<Rightarrow> string \<times> string \<times> UserRoleType \<times> string list \<times> DataScopeJwt" where
  "principal_of p = (sub p, org_id p, role_jwt p, permissions p, data_scope p)"

section \<open>LLM service helpers (services/mcpLlmService.ts)\<close>

record LLMRequest =
  query_llm :: string
  context_llm :: SessionContext
  sessionHistory :: "(string \<times> string) list"

record LLMResponse =
  text_llm :: string
  confidence_llm :: rat
  intent_llm :: IntentTypeEnum
  suggestedPrompts_llm :: "string list"
  dataSources_llm :: "string list"

definition enrichContext :: "string \<Rightarrow> SessionContext \<Rightarrow> UserRoleType \<Rightarrow> string \<Rightarrow> SessionContext" where
  "enrichContext query context userRole' organizationName = context \<lparr> userRole := Some userRole' \<rparr>"

definition detectIntent :: "string \<Rightarrow> IntentTypeEnum" where
  "detectIntent query =
     (let lowerQuery = toLowerCase query in
      if includes_str lowerQuery ''why'' \<or> includes_str lowerQuery ''explain''
           \<or> includes_str lowerQuery ''what is'' then EXPLAIN
      else if includes_str lowerQuery ''summarize'' \<or> includes_str lowerQuery ''summary''
           \<or> includes_str lowerQuery ''overview'' then SUMMARIZE
      else if includes_str lowerQuery ''how do i'' \<or> includes_str lowerQuery ''where''
           \<or> includes_str lowerQuery ''navigate'' then NAVIGATE
      else if includes_str lowerQuery ''help'' \<or> includes_str lowerQuery ''guide''
           \<or> includes_str lowerQuery ''tutorial'' then GUIDE
      else if includes_str lowerQuery ''validate'' \<or> includes_str lowerQuery ''check''
           \<or> includes_str lowerQuery ''verify'' then VALIDATE
      else GUIDE)"

definition formatResponse :: "LLMResponse \<Rightarrow> IntentTypeEnum \<Rightarrow> string" where
  "formatResponse llmResponse intent = text_llm llmResponse"

text \<open>The sequence of values the generator \<open>streamResponse\<close> yields, in order.\<close>

definition streamResponse :: "string \<Rightarrow> string list" where
  "streamResponse text = map (\<lambda>word. word @ '' '') (split_str text (CHR '' ''))"

subsection \<open>The classifier as the specification words it\<close>

text \<open>
  The ordered rule list of the specification: each rule is a keyword set and
  the intent it labels. \<open>classify\<close> returns the label of the first rule one of
  whose keywords occurs in the lower-cased query, and \<open>GUIDE\<close> when no rule
  matches.
\<close>

definition intent_rules :: "(string list \<times> IntentTypeEnum) list" where
  "intent_rules =
     [([''why'', ''explain'', ''what is''], EXPLAIN),
      ([''summarize'', ''summary'', ''overview''], SUMMARIZE),
      ([''how do i'', ''where'', ''navigate''], NAVIGATE),
      ([''help'', ''guide'', ''tutorial''], GUIDE),
      ([''validate'', ''check'', ''verify''], VALIDATE)]"

definition rule_matches :: "string \<Rightarrow> string list \<times> IntentTypeEnum \<Rightarrow> bool" where
  "rule_matches q r = list_ex (\<lambda>kw. includes_str (toLowerCase q) kw) (fst r)"

definition classify :: "string \<Rightarrow> IntentTypeEnum" where
  "classify q = (case find (rule_matches q) intent_rules of
                   None \<Rightarrow> GUIDE
                 | Some r \<Rightarrow> snd r)"

section \<open>Storage (server/storage.ts)\<close>

text \<open>
  \<open>ChatSession\<close> is \<open>{id, ...insertSession, createdAt, lastActivity, messageCount}\<close> and
  \<open>ChatMessage\<close> is \<open>{id, ...insertMessage, timestamp}\<close>: each extends the record
  of the fields the caller supplies.
\<close>

record InsertChatSession =
  userId :: string
  organizationId :: string
  context_session :: "SessionContext option"

record ChatSession = InsertChatSession +
  id_session :: string
  createdAt :: timestamp
  lastActivity :: timestamp
  messageCount :: int

record InsertChatMessage =
  sessionId :: string
  role :: string
  content :: string
  intent :: "IntentTypeEnum option"
  confidence :: "int option"
  dataSources :: "string list option"
  suggestedPrompts :: "string list option"
  actions :: "ActionItem list option"
  metadata :: "MessageMetadata option"

record ChatMessage = InsertChatMessage +
  id_message :: string
  timestamp :: timestamp

text \<open>
  The two \<open>Map\<close>s of \<open>MemStorage\<close> the chat pipeline uses, as association
  lists in insertion order: \<open>Map.set\<close> replaces the value of a present key in
  place and appends an absent key, which is \<open>AList.update\<close>; \<open>Map.get\<close> is
  \<open>map_of\<close>; \<open>Map.values()\<close> lists the values in insertion order.
\<close>

record MemStorage =
  chatSessions :: "(string \<times> ChatSession) list"
  chatMessages :: "(string \<times> ChatMessage) list"

definition MemStorage_new :: MemStorage where
  "MemStorage_new = \<lparr> chatSessions = [], chatMessages = [] \<rparr>"

definition getChatSession :: "MemStorage \<Rightarrow> string \<Rightarrow> ChatSession option" where
  "getChatSession this i = map_of (chatSessions this) i"

definition getSessionsByUserId :: "MemStorage \<Rightarrow> string \<Rightarrow> ChatSession list" where
  "getSessionsByUserId this u = filter (\<lambda>session. userId session = u) (map snd (chatSessions this))"

text \<open>
  \<open>randomUUID()\<close> and \<open>new Date()\<close> are read from the environment: the value
  each call returns is an argument of the operation that makes the call.
\<close>

definition createChatSession ::
  "string \<Rightarrow> timestamp \<Rightarrow> InsertChatSession \<Rightarrow> MemStorage \<Rightarrow> ChatSession \<times> MemStorage" where
  "createChatSession uuid now insertSession this =
     (let session = \<lparr> userId = userId insertSession,
                       organizationId = organizationId insertSession,
                       context_session = context_session insertSession,
                       id_session = uuid,
                       createdAt = now,
                       lastActivity = now,
                       messageCount = 0 \<rparr>
      in (session, this \<lparr> chatSessions := AList.update uuid session (chatSessions this) \<rparr>))"

definition updateSessionActivity :: "timestamp \<Rightarrow> string \<Rightarrow> MemStorage \<Rightarrow> MemStorage" where
  "updateSessionActivity now i this =
     (case map_of (chatSessions this) i of
        None \<Rightarrow> this
      | Some session \<Rightarrow>
          this \<lparr> chatSessions :=
                   AList.update i (session \<lparr> lastActivity := now,
                                             messageCount := messageCount session + 1 \<rparr>)
                     (chatSessions this) \<rparr>)"

definition getChatMessage :: "MemStorage \<Rightarrow> string \<Rightarrow> ChatMessage option" where
  "getChatMessage this i = map_of (chatMessages this) i"

text \<open>\<open>Array.prototype.sort\<close> is stable; so is \<open>sort_key\<close>.\<close>

definition getMessagesBySessionId :: "MemStorage \<Rightarrow> string \<Rightarrow> ChatMessage list" where
  "getMessagesBySessionId this sid =
     sort_key timestamp (filter (\<lambda>message. sessionId message = sid) (map snd (chatMessages this)))"

text \<open>
  \<open>createChatMessage\<close> reads the clock twice: \<open>now\<close> for the message's
  timestamp and, inside \<open>updateSessionActivity\<close>, \<open>now'\<close> for the session's
  \<open>lastActivity\<close>. It has no failing branch.
\<close>

definition createChatMessage ::
  "string \<Rightarrow> timestamp \<Rightarrow> timestamp \<Rightarrow> InsertChatMessage \<Rightarrow> MemStorage \<Rightarrow> ChatMessage \<times> MemStorage" where
  "createChatMessage uuid now now' insertMessage this =
     (let message = \<lparr> sessionId = sessionId insertMessage,
                       role = role insertMessage,
                       content = content insertMessage,
                       intent = intent insertMessage,
                       confidence = confidence insertMessage,
                       dataSources = dataSources insertMessage,
                       suggestedPrompts = suggestedPrompts insertMessage,
                       actions = actions insertMessage,
                       metadata = metadata insertMessage,
                       id_message = uuid,
                       timestamp = now \<rparr>;
          this1 = this \<lparr> chatMessages := AList.update uuid message (chatMessages this) \<rparr>
      in (message, updateSessionActivity now' (sessionId insertMessage) this1))"

subsection \<open>Sequences of store operations\<close>

text \<open>
  The three public methods of \<open>MemStorage\<close> that write the session map or the
  message map, each with the values the environment hands it (the identifier
  \<open>randomUUID()\<close> returns, the clock readings). \<open>updateSessionActivity\<close> is
  called by \<open>createChatMessage\<close> and is also a method of the interface
  \<open>IStorage\<close> in its own right. The remaining methods of the store read these
  two maps or work on the other maps.
\<close>

datatype StoreOp =
    CreateChatSession string timestamp InsertChatSession
  | CreateChatMessage string timestamp timestamp InsertChatMessage
  | UpdateSessionActivity timestamp string

fun apply_op :: "StoreOp \<Rightarrow> MemStorage \<Rightarrow> MemStorage" where
  "apply_op (CreateChatSession uuid now ins) this = snd (createChatSession uuid now ins this)"
| "apply_op (CreateChatMessage uuid now now' ins) this = snd (createChatMessage uuid now now' ins this)"
| "apply_op (UpdateSessionActivity now i) this = updateSessionActivity now i this"

fun run_ops :: "StoreOp list \<Rightarrow> MemStorage \<Rightarrow> MemStorage" where
  "run_ops [] this = this"
| "run_ops (op # ops) this = run_ops ops (apply_op op this)"

text \<open>
  A fresh identifier occurs nowhere in the store: it is no key of either map
  and no stored message refers to it as its session.
\<close>

definition fresh_uuid :: "MemStorage \<Rightarrow> string \<Rightarrow> bool" where
  "fresh_uuid this u =
     (u \<notin> set (map fst (chatSessions this)) \<and>
      u \<notin> set (map fst (chatMessages this)) \<and>
      u \<notin> set (map (\<lambda>p. sessionId (snd p)) (chatMessages this)))"

text \<open>
  An operation is fresh when the identifier it draws is; \<open>updateSessionActivity\<close>
  draws none.
\<close>

fun op_fresh :: "MemStorage \<Rightarrow> StoreOp \<Rightarrow> bool" where
  "op_fresh this (CreateChatSession uuid now ins) = fresh_uuid this uuid"
| "op_fresh this (CreateChatMessage uuid now now' ins) = fresh_uuid this uuid"
| "op_fresh this (UpdateSessionActivity now i) = True"

fun fresh_ops :: "StoreOp list \<Rightarrow> MemStorage \<Rightarrow> bool" where
  "fresh_ops [] this = True"
| "fresh_ops (op # ops) this = (op_fresh this op \<and> fresh_ops ops (apply_op op this))"

text \<open>The clock readings of a sequence of operations, in the order they are taken.\<close>

fun op_times :: "StoreOp \<Rightarrow> timestamp list" where
  "op_times (CreateChatSession uuid now ins) = [now]"
| "op_times (CreateChatMessage uuid now now' ins) = [now, now']"
| "op_times (UpdateSessionActivity now i) = [now]"

definition readings :: "StoreOp list \<Rightarrow> timestamp list" where
  "readings ops = concat (map op_times ops)"

text \<open>The appends to session \<open>sid\<close> in a sequence of operations, and the messages they build.\<close>

fun appends_to :: "string \<Rightarrow> StoreOp \<Rightarrow> bool" where
  "appends_to sid (CreateChatSession uuid now ins) = False"
| "appends_to sid (CreateChatMessage uuid now now' ins) = (sessionId ins = sid)"
| "appends_to sid (UpdateSessionActivity now i) = False"

fun created_messages :: "StoreOp list \<Rightarrow> MemStorage \<Rightarrow> ChatMessage list" where
  "created_messages [] this = []"
| "created_messages (CreateChatSession uuid now ins # ops) this =
     created_messages ops (apply_op (CreateChatSession uuid now ins) this)"
| "created_messages (CreateChatMessage uuid now now' ins # ops) this =
     fst (createChatMessage uuid now now' ins this)
       # created_messages ops (apply_op (CreateChatMessage uuid now now' ins) this)"
| "created_messages (UpdateSessionActivity now i # ops) this =
     created_messages ops (apply_op (UpdateSessionActivity now i) this)"

text \<open>
  A direct call of \<open>updateSessionActivity\<close>, one that is not made by
  \<open>createChatMessage\<close>; it takes effect on session \<open>k\<close> when it names \<open>k\<close> and the
  session exists. \<open>direct_updates\<close> counts the calls of a sequence that take
  effect on \<open>k\<close>.
\<close>

fun is_direct :: "StoreOp \<Rightarrow> bool" where
  "is_direct (CreateChatSession uuid now ins) = False"
| "is_direct (CreateChatMessage uuid now now' ins) = False"
| "is_direct (UpdateSessionActivity now i) = True"

fun bumps :: "string \<Rightarrow> StoreOp \<Rightarrow> MemStorage \<Rightarrow> bool" where
  "bumps k (CreateChatSession uuid now ins) this = False"
| "bumps k (CreateChatMessage uuid now now' ins) this = False"
| "bumps k (UpdateSessionActivity now i) this = (i = k \<and> getChatSession this k \<noteq> None)"

fun direct_updates :: "string \<Rightarrow> StoreOp list \<Rightarrow> MemStorage \<Rightarrow> nat" where
  "direct_updates k [] this = 0"
| "direct_updates k (op # ops) this =
     (if bumps k op this then 1 else 0) + direct_updates k ops (apply_op op this)"

section \<open>Routes (server/routes.ts)\<close>

record ChatQueryOptions =
  streaming :: "bool option"
  includeSuggestions :: "bool option"
  maxTokens :: "rat option"

record ChatQueryRequest =
  sessionId_req :: "string option"
  query_req :: string
  context_req :: "SessionContext option"
  options_req :: "ChatQueryOptions option"

text \<open>
  \<open>chatQueryRequestSchema.safeParse\<close> on a body whose fields already have the
  types of the schema: what is left to check is the length of the query
  (\<open>z.string().min(1).max(2000)\<close>). The context object of the schema has no
  \<open>userRole\<close> key, and an object schema drops the keys it does not name.
  \<open>None\<close> is \<open>success: false\<close>.
\<close>

definition chatQueryRequestSchema_safeParse :: "ChatQueryRequest \<Rightarrow> ChatQueryRequest option" where
  "chatQueryRequestSchema_safeParse body =
     (if 1 \<le> length (query_req body) \<and> length (query_req body) \<le> 2000
      then Some (body \<lparr> context_req := map_option (\<lambda>c. c \<lparr> userRole := None \<rparr>) (context_req body) \<rparr>)
      else None)"

definition empty_context :: SessionContext where
  "empty_context = \<lparr> page = None, pageType = None, entityIds = None, metricIds = None,
                      reportId = None, userAction = None, userRole = None \<rparr>"

text \<open>\<open>context || {}\<close>\<close>

definition context_or_empty :: "SessionContext option \<Rightarrow> SessionContext" where
  "context_or_empty c = (case c of None \<Rightarrow> empty_context | Some x \<Rightarrow> x)"

text \<open>The session id that passes the truthiness test \<open>if (sessionId)\<close>: present and not empty.\<close>

definition truthy_id :: "string option \<Rightarrow> string option" where
  "truthy_id s = (case s of None \<Rightarrow> None | Some x \<Rightarrow> if x = [] then None else Some x)"

text \<open>\<open>msgs.slice(-n)\<close>\<close>

definition slice_last :: "nat \<Rightarrow> 'a list \<Rightarrow> 'a list" where
  "slice_last n xs = drop (length xs - n) xs"

text \<open>
  \<open>Math.round\<close>, here on a rational: the confidence is a double in the source,
  and the rounding of its product with 100 in double arithmetic is not
  modelled. No property below reads the stored confidence.
\<close>

definition math_round :: "rat \<Rightarrow> int" where
  "math_round x = \<lfloor>x + 1 / 2\<rfloor>"

text \<open>
  The values one run of a handler reads from the environment: the two clock
  readings of \<open>verifyToken\<close>, and the identifier and clock readings of each
  store call the run may make.
\<close>

record HandlerEnv =
  now_auth :: int
  now_auth_iat :: int
  uuid_session :: string
  now_session :: timestamp
  uuid_user :: string
  now_user :: timestamp
  now_user_activity :: timestamp
  uuid_assistant :: string
  now_assistant :: timestamp
  now_assistant_activity :: timestamp

record ChatResponseBody =
  text_res :: string
  confidence_res :: rat
  intent_res :: IntentTypeEnum
  dataSources_res :: "string list"
  suggestedPrompts_res :: "string list"
  actions_res :: "ActionItem list"

record ChatResponse =
  sessionId_res :: string
  messageId_res :: string
  response_res :: ChatResponseBody
  metadata_res :: MessageMetadata
  timestamp_res :: timestamp

text \<open>An HTTP reply: an error body with its status, code and message, or the 200 body.\<close>

datatype HttpResponse =
    ErrorJson nat string string
  | OkJson ChatResponse

definition user_message :: "string \<Rightarrow> string \<Rightarrow> InsertChatMessage" where
  "user_message sid q =
     \<lparr> sessionId = sid, role = ''user'', content = q, intent = None, confidence = None,
       dataSources = None, suggestedPrompts = None, actions = None, metadata = None \<rparr>"

definition assistant_message :: "string \<Rightarrow> string \<Rightarrow> LLMResponse \<Rightarrow> InsertChatMessage" where
  "assistant_message sid formattedText llmResponse =
     \<lparr> sessionId = sid, role = ''assistant'', content = formattedText,
       intent = Some (intent_llm llmResponse),
       confidence = Some (math_round (confidence_llm llmResponse * 100)),
       dataSources = Some (dataSources_llm llmResponse),
       suggestedPrompts = Some (suggestedPrompts_llm llmResponse),
       actions = Some [],
       metadata = Some \<lparr> tokensUsed = Some (int (length formattedText) div 4),
                          latencyMs = Some 1250, cached = Some False \<rparr> \<rparr>"

subsection \<open>POST /api/v1/copilot/chat\<close>

text \<open>Step 1, get or create the session; \<open>None\<close> is the early 404 return.\<close>

definition chat_post_session ::
  "HandlerEnv \<Rightarrow> JWTPayload \<Rightarrow> ChatQueryRequest \<Rightarrow> MemStorage \<Rightarrow> (ChatSession \<times> MemStorage) option" where
  "chat_post_session env user queryRequest storage =
     (case truthy_id (sessionId_req queryRequest) of
        Some sid \<Rightarrow>
          (case getChatSession storage sid of
             None \<Rightarrow> None
           | Some session \<Rightarrow> if userId session \<noteq> sub user then None else Some (session, storage))
      | None \<Rightarrow>
          Some (createChatSession (uuid_session env) (now_session env)
                  \<lparr> userId = sub user, organizationId = org_id user,
                    context_session = Some (context_or_empty (context_req queryRequest)) \<rparr>
                  storage))"

text \<open>Step 5, the request handed to the response generator.\<close>

definition chat_post_llm_request ::
  "JWTPayload \<Rightarrow> ChatQueryRequest \<Rightarrow> ChatSession \<Rightarrow> MemStorage \<Rightarrow> LLMRequest" where
  "chat_post_llm_request user queryRequest session storage =
     \<lparr> query_llm = query_req queryRequest,
       context_llm = enrichContext (query_req queryRequest) (context_or_empty (context_req queryRequest))
                       (role_jwt user) ''Acme Sustainability Corp'',
       sessionHistory = map (\<lambda>m. (role m, content m))
                          (slice_last 10 (getMessagesBySessionId storage (id_session session))) \<rparr>"

text \<open>
  The handler with its \<open>authMiddleware\<close>. The response generator is a
  parameter; \<open>None\<close> from it is a rejected call, which the handler's
  \<open>catch\<close> turns into the 500 reply.
\<close>

definition chat_post ::
  "HandlerEnv \<Rightarrow> (LLMRequest \<Rightarrow> LLMResponse option) \<Rightarrow> string option \<Rightarrow> ChatQueryRequest
     \<Rightarrow> MemStorage \<Rightarrow> HttpResponse \<times> MemStorage" where
  "chat_post env callMcpLlm authorization body storage =
     (case verifyToken (now_auth env) (now_auth_iat env)
             (case authorization of None \<Rightarrow> [] | Some h \<Rightarrow> h) of
        None \<Rightarrow> (ErrorJson 401 ''UNAUTHORIZED'' ''Invalid or expired authentication token'', storage)
      | Some user \<Rightarrow>
     (case chatQueryRequestSchema_safeParse body of
        None \<Rightarrow> (ErrorJson 400 ''INVALID_QUERY'' ''Invalid request format'', storage)
      | Some queryRequest \<Rightarrow>
     (case chat_post_session env user queryRequest storage of
        None \<Rightarrow> (ErrorJson 404 ''SESSION_NOT_FOUND'' ''Chat session not found or access denied'', storage)
      | Some (session, storage1) \<Rightarrow>
     (let (userMessage, storage2) =
            createChatMessage (uuid_user env) (now_user env) (now_user_activity env)
              (user_message (id_session session) (query_req queryRequest)) storage1;
          intent = detectIntent (query_req queryRequest)
      in case callMcpLlm (chat_post_llm_request user queryRequest session storage2) of
           None \<Rightarrow> (ErrorJson 500 ''INTERNAL_ERROR'' ''An error occurred processing your query'', storage2)
         | Some llmResponse \<Rightarrow>
     (let formattedText = formatResponse llmResponse intent;
          (assistantMessage, storage3) =
            createChatMessage (uuid_assistant env) (now_assistant env) (now_assistant_activity env)
              (assistant_message (id_session session) formattedText llmResponse) storage2
      in (OkJson \<lparr> sessionId_res = id_session session,
                   messageId_res = id_message assistantMessage,
                   response_res = \<lparr> text_res = formattedText,
                                    confidence_res = confidence_llm llmResponse,
                                    intent_res = intent_llm llmResponse,
                                    dataSources_res = dataSources_llm llmResponse,
                                    suggestedPrompts_res = suggestedPrompts_llm llmResponse,
                                    actions_res = [] \<rparr>,
                   metadata_res = (case metadata assistantMessage of
                                     None \<Rightarrow> \<lparr> tokensUsed = None, latencyMs = None, cached = None \<rparr>
                                   | Some md \<Rightarrow> md),
                   timestamp_res = timestamp assistantMessage \<rparr>,
          storage3))))))"

subsection \<open>WebSocket /ws, the \<open>message\<close> handler\<close>

text \<open>A parsed inbound envelope.\<close>

record WsMessage =
  type_msg :: string
  sessionId_msg :: "string option"
  query_msg :: string
  context_msg :: "SessionContext option"
  token_msg :: "string option"

text \<open>The outbound envelopes, by their \<open>type\<close>.\<close>

datatype Envelope =
    TypingEnv "string option"
  | TokenEnv string string
  | CompleteEnv string string "string list" "MessageMetadata option"
  | ErrorEnv string string

definition is_token :: "Envelope \<Rightarrow> bool" where
  "is_token e = (case e of TokenEnv sid t \<Rightarrow> True | _ \<Rightarrow> False)"

definition is_complete :: "Envelope \<Rightarrow> bool" where
  "is_complete e = (case e of CompleteEnv sid mid ps md \<Rightarrow> True | _ \<Rightarrow> False)"

definition token_text :: "Envelope \<Rightarrow> string" where
  "token_text e = (case e of TokenEnv sid t \<Rightarrow> t | _ \<Rightarrow> [])"

text \<open>
  The streaming loop: the \<open>k\<close>-th token is sent when the \<open>k\<close>-th test
  \<open>ws.readyState === WebSocket.OPEN\<close> holds; \<open>readyOpen k\<close> is that test.
\<close>

fun ws_send_tokens :: "(nat \<Rightarrow> bool) \<Rightarrow> nat \<Rightarrow> string \<Rightarrow> string list \<Rightarrow> Envelope list" where
  "ws_send_tokens readyOpen k sid [] = []"
| "ws_send_tokens readyOpen k sid (t # ts) =
     (if readyOpen k then [TokenEnv sid t] else []) @ ws_send_tokens readyOpen (Suc k) sid ts"

text \<open>The session the handler works on: the one loaded when the id is truthy and found, else a new one.\<close>

definition ws_session :: "HandlerEnv \<Rightarrow> JWTPayload \<Rightarrow> WsMessage \<Rightarrow> MemStorage \<Rightarrow> ChatSession \<times> MemStorage" where
  "ws_session env user msg storage =
     (case (case truthy_id (sessionId_msg msg) of
              None \<Rightarrow> None
            | Some sid \<Rightarrow> getChatSession storage sid) of
        Some session \<Rightarrow> (session, storage)
      | None \<Rightarrow>
          createChatSession (uuid_session env) (now_session env)
            \<lparr> userId = sub user, organizationId = org_id user,
              context_session = Some (context_or_empty (context_msg msg)) \<rparr>
            storage)"

definition ws_llm_request :: "JWTPayload \<Rightarrow> WsMessage \<Rightarrow> LLMRequest" where
  "ws_llm_request user msg =
     \<lparr> query_llm = query_msg msg,
       context_llm = enrichContext (query_msg msg) (context_or_empty (context_msg msg))
                       (role_jwt user) ''Acme Sustainability Corp'',
       sessionHistory = [] \<rparr>"

text \<open>
  The handler on a parsed envelope, returning the envelopes it sends, in
  order, and the store it leaves. A rejected generator call is caught and
  answered with the \<open>INTERNAL_ERROR\<close> envelope.
\<close>

definition ws_on_message ::
  "HandlerEnv \<Rightarrow> (LLMRequest \<Rightarrow> LLMResponse option) \<Rightarrow> (nat \<Rightarrow> bool) \<Rightarrow> WsMessage
     \<Rightarrow> MemStorage \<Rightarrow> Envelope list \<times> MemStorage" where
  "ws_on_message env callMcpLlm readyOpen msg storage =
     (if type_msg msg \<noteq> ''chat_query'' then ([], storage)
      else
     (case (case token_msg msg of
              None \<Rightarrow> None
            | Some t \<Rightarrow> verifyToken (now_auth env) (now_auth_iat env) t) of
        None \<Rightarrow> ([ErrorEnv ''UNAUTHORIZED'' ''Invalid token''], storage)
      | Some user \<Rightarrow>
     (let (session, storage1) = ws_session env user msg storage;
          (userMessage, storage2) =
            createChatMessage (uuid_user env) (now_user env) (now_user_activity env)
              (user_message (id_session session) (query_msg msg)) storage1;
          intent = detectIntent (query_msg msg)
      in case callMcpLlm (ws_llm_request user msg) of
           None \<Rightarrow> ([TypingEnv (sessionId_msg msg), ErrorEnv ''INTERNAL_ERROR'' ''An error occurred''],
                     storage2)
         | Some llmResponse \<Rightarrow>
     (let formattedText = formatResponse llmResponse intent;
          tokens = streamResponse formattedText;
          (assistantMessage, storage3) =
            createChatMessage (uuid_assistant env) (now_assistant env) (now_assistant_activity env)
              (assistant_message (id_session session) formattedText llmResponse) storage2
      in ([TypingEnv (sessionId_msg msg)]
            @ ws_send_tokens readyOpen 0 (id_session session) tokens
            @ (if readyOpen (length tokens)
               then [CompleteEnv (id_session session) (id_message assistantMessage)
                       (suggestedPrompts_llm llmResponse) (metadata assistantMessage)]
               else []),
          storage3)))))"

section \<open>Auxiliary notions and sample inputs\<close>

text \<open>The messages stored under a session id, in insertion order.\<close>

definition stored_under :: "MemStorage \<Rightarrow> string \<Rightarrow> ChatMessage list" where
  "stored_under this sid = filter (\<lambda>message. sessionId message = sid) (map snd (chatMessages this))"

text \<open>
  By how much the \<open>messageCount\<close> of session \<open>k\<close> exceeds the number of messages
  stored under \<open>k\<close>; 0 when there is no such session.
\<close>

definition excess :: "MemStorage \<Rightarrow> string \<Rightarrow> int" where
  "excess this k = (case getChatSession this k of
                      None \<Rightarrow> 0
                    | Some s \<Rightarrow> messageCount s - int (length (stored_under this k)))"

text \<open>Sample environment readings, response generators and connection state.\<close>

definition demo_env :: HandlerEnv where
  "demo_env = \<lparr> now_auth = 1000, now_auth_iat = 1000, uuid_session = ''s-new'', now_session = 1001,
                uuid_user = ''m-user'', now_user = 1002, now_user_activity = 1003,
                uuid_assistant = ''m-asst'', now_assistant = 1004, now_assistant_activity = 1005 \<rparr>"

definition hello_llm :: "LLMRequest \<Rightarrow> LLMResponse option" where
  "hello_llm request = Some \<lparr> text_llm = ''hello world'', confidence_llm = 94 / 100, intent_llm = EXPLAIN,
                              suggestedPrompts_llm = [], dataSources_llm = [] \<rparr>"

text \<open>A generator whose reply spells out the history it was handed.\<close>

definition echo_llm :: "LLMRequest \<Rightarrow> LLMResponse option" where
  "echo_llm request = Some \<lparr> text_llm = concat (map (\<lambda>h. fst h @ '':'' @ snd h) (sessionHistory request)),
                             confidence_llm = 1, intent_llm = GUIDE,
                             suggestedPrompts_llm = [], dataSources_llm = [] \<rparr>"

definition always_open :: "nat \<Rightarrow> bool" where
  "always_open k = True"

text \<open>A store holding one session of user \<open>user-999\<close>, and a query that names it.\<close>

definition other_store :: MemStorage where
  "other_store = snd (createChatSession ''s-other'' 10
                        \<lparr> userId = ''user-999'', organizationId = ''org-1'', context_session = None \<rparr>
                        MemStorage_new)"

definition other_msg :: WsMessage where
  "other_msg = \<lparr> type_msg = ''chat_query'', sessionId_msg = Some ''s-other'', query_msg = ''why?'',
                 context_msg = None, token_msg = Some ''Bearer abc'' \<rparr>"

definition other_req :: ChatQueryRequest where
  "other_req = \<lparr> sessionId_req = Some ''s-other'', query_req = ''why?'', context_req = None,
                 options_req = None \<rparr>"

text \<open>Queries without a session id: a plain one, an empty one and one of 2001 characters.\<close>

definition ws_query :: "string \<Rightarrow> WsMessage" where
  "ws_query q = \<lparr> type_msg = ''chat_query'', sessionId_msg = None, query_msg = q,
                  context_msg = None, token_msg = Some ''Bearer abc'' \<rparr>"

definition rest_query :: "string \<Rightarrow> ChatQueryRequest" where
  "rest_query q = \<lparr> sessionId_req = None, query_req = q, context_req = None, options_req = None \<rparr>"

definition long_query :: string where
  "long_query = replicate 2001 (CHR ''a'')"

text \<open>A session of the demo user and two appends to it.\<close>

definition demo_session :: InsertChatSession where
  "demo_session = \<lparr> userId = ''user-123'', organizationId = ''org-456'', context_session = None \<rparr>"

definition demo_ops :: "StoreOp list" where
  "demo_ops = [CreateChatSession ''s1'' 5 demo_session,
               CreateChatMessage ''m1'' 6 7 (user_message ''s1'' ''hi''),
               CreateChatMessage ''m2'' 8 9 (user_message ''s1'' ''again'')]"

text \<open>The same session with two appends made within the millisecond of its creation.\<close>

definition same_ms_ops :: "StoreOp list" where
  "same_ms_ops = [CreateChatSession ''s1'' 5 demo_session,
                  CreateChatMessage ''m1'' 5 5 (user_message ''s1'' ''hi''),
                  CreateChatMessage ''m2'' 5 5 (user_message ''s1'' ''again'')]"

text \<open>
  The session with one append and then one direct call of
  \<open>updateSessionActivity\<close>, and the session record that results.
\<close>

definition direct_ops :: "StoreOp list" where
  "direct_ops = [CreateChatSession ''s1'' 5 demo_session,
                 CreateChatMessage ''m1'' 6 7 (user_message ''s1'' ''hi''),
                 UpdateSessionActivity 8 ''s1'']"

definition direct_after :: ChatSession where
  "direct_after = \<lparr> userId = ''user-123'', organizationId = ''org-456'', context_session = None,
                    id_session = ''s1'', createdAt = 5, lastActivity = 8, messageCount = 2 \<rparr>"

text \<open>The principal every accepted token yields at clock readings 1000, and the fixed reply.\<close>

definition demo_user :: JWTPayload where
  "demo_user = \<lparr> sub = ''user-123'', org_id = ''org-456'', role_jwt = ESG_ANALYST,
                 permissions = [''read:esg_data'', ''read:reports'', ''read:audit_logs''],
                 data_scope = \<lparr> entities = [''entity-dubai-hq'', ''entity-abu-dhabi-plant''],
                                geographies = [''UAE'', ''KSA''] \<rparr>,
                 exp_jwt = 3601, iat = 1 \<rparr>"

definition hello_response :: LLMResponse where
  "hello_response = \<lparr> text_llm = ''hello world'', confidence_llm = 94 / 100, intent_llm = EXPLAIN,
                       suggestedPrompts_llm = [], dataSources_llm = [] \<rparr>"

text \<open>The store after the session of the demo user is created at clock reading 5.\<close>

definition demo_store :: MemStorage where
  "demo_store = run_ops [CreateChatSession ''s1'' 5 demo_session] MemStorage_new"

definition demo_created :: ChatSession where
  "demo_created = \<lparr> userId = ''user-123'', organizationId = ''org-456'', context_session = None,
                    id_session = ''s1'', createdAt = 5, lastActivity = 5, messageCount = 0 \<rparr>"

definition demo_after :: ChatSession where
  "demo_after = \<lparr> userId = ''user-123'', organizationId = ''org-456'', context_session = None,
                  id_session = ''s1'', createdAt = 5, lastActivity = 9, messageCount = 2 \<rparr>"

section \<open>Properties\<close>

lemmas store_defs = createChatSession_def createChatMessage_def updateSessionActivity_def
  getChatSession_def getMessagesBySessionId_def getChatMessage_def MemStorage_new_def Let_def

lemmas handler_defs = ws_on_message_def ws_session_def ws_llm_request_def chat_post_def
  chat_post_session_def chat_post_llm_request_def chatQueryRequestSchema_safeParse_def
  verifyToken_def startsWith_def truthy_id_def user_message_def assistant_message_def
  formatResponse_def streamResponse_def context_or_empty_def empty_context_def enrichContext_def
  slice_last_def math_round_def

lemmas demo_defs = demo_env_def hello_llm_def echo_llm_def always_open_def other_store_def
  other_msg_def other_req_def ws_query_def rest_query_def demo_session_def demo_ops_def
  same_ms_ops_def demo_user_def hello_response_def demo_store_def demo_created_def demo_after_def
  direct_ops_def direct_after_def

subsection \<open>Strings\<close>

lemma split_str_not_Nil: "split_str s sep \<noteq> []"
  by (induction s) (auto split: list.splits)

lemma concat_split_str:
  "concat (map (\<lambda>w. w @ [sep]) (split_str s sep)) = s @ [sep]"
  by (induction s) (auto split: list.splits simp: split_str_not_Nil)

lemma split_str_no_sep: "w \<in> set (split_str s sep) \<Longrightarrow> sep \<notin> set w"
  by (induction s arbitrary: w) (auto split: list.splits if_splits)

subsection \<open>The store, one operation at a time\<close>

lemma update_fresh_key: "k \<notin> set (map fst al) \<Longrightarrow> AList.update k v al = al @ [(k, v)]"
  by (induction al) auto

lemma chatMessages_updateSessionActivity:
  "chatMessages (updateSessionActivity now i this) = chatMessages this"
  by (simp add: updateSessionActivity_def split: option.splits)

lemma getChatSession_updateSessionActivity:
  "getChatSession (updateSessionActivity now i this) k =
     (if k = i then map_option (\<lambda>s. s \<lparr> lastActivity := now, messageCount := messageCount s + 1 \<rparr>)
                      (getChatSession this k)
      else getChatSession this k)"
  by (simp add: updateSessionActivity_def getChatSession_def update_conv' split: option.splits)

lemma fst_createChatMessage:
  "timestamp (fst (createChatMessage u now now' ins this)) = now"
  "id_message (fst (createChatMessage u now now' ins this)) = u"
  "sessionId (fst (createChatMessage u now now' ins this)) = sessionId ins"
  "role (fst (createChatMessage u now now' ins this)) = role ins"
  "content (fst (createChatMessage u now now' ins this)) = content ins"
  by (simp_all add: createChatMessage_def Let_def)

lemma chatMessages_createChatMessage:
  "chatMessages (snd (createChatMessage u now now' ins this))
     = AList.update u (fst (createChatMessage u now now' ins this)) (chatMessages this)"
  by (simp add: createChatMessage_def Let_def chatMessages_updateSessionActivity)

lemma getChatSession_createChatMessage:
  "getChatSession (snd (createChatMessage u now now' ins this)) k =
     (if k = sessionId ins
      then map_option (\<lambda>s. s \<lparr> lastActivity := now', messageCount := messageCount s + 1 \<rparr>)
             (getChatSession this k)
      else getChatSession this k)"
  by (simp add: createChatMessage_def Let_def getChatSession_updateSessionActivity)
     (simp add: getChatSession_def)

lemma chatSessions_createChatMessage_absent:
  "getChatSession this (sessionId ins) = None \<Longrightarrow>
   chatSessions (snd (createChatMessage u now now' ins this)) = chatSessions this"
  by (simp add: createChatMessage_def Let_def updateSessionActivity_def getChatSession_def)

lemma chatMessages_createChatSession:
  "chatMessages (snd (createChatSession u now ins this)) = chatMessages this"
  by (simp add: createChatSession_def Let_def)

lemma getChatSession_createChatSession:
  "getChatSession (snd (createChatSession u now ins this)) k =
     (if k = u then Some (fst (createChatSession u now ins this)) else getChatSession this k)"
  by (simp add: createChatSession_def Let_def getChatSession_def update_conv')

lemma fst_createChatSession:
  "messageCount (fst (createChatSession u now ins this)) = 0"
  "lastActivity (fst (createChatSession u now ins this)) = now"
  "id_session (fst (createChatSession u now ins this)) = u"
  "userId (fst (createChatSession u now ins this)) = userId ins"
  by (simp_all add: createChatSession_def Let_def)

lemma getMessagesBySessionId_stored:
  "getMessagesBySessionId this sid = sort_key timestamp (stored_under this sid)"
  by (simp add: getMessagesBySessionId_def stored_under_def)

lemma stored_under_createChatSession:
  "stored_under (snd (createChatSession u now ins this)) sid = stored_under this sid"
  by (simp add: stored_under_def chatMessages_createChatSession)

lemma stored_under_createChatMessage:
  "fresh_uuid this u \<Longrightarrow>
   stored_under (snd (createChatMessage u now now' ins this)) sid
     = stored_under this sid @ (if sessionId ins = sid then [fst (createChatMessage u now now' ins this)] else [])"
  by (simp add: stored_under_def chatMessages_createChatMessage fresh_uuid_def update_fresh_key
        fst_createChatMessage)

lemma stored_under_fresh: "fresh_uuid this u \<Longrightarrow> stored_under this u = []"
  by (auto simp: stored_under_def fresh_uuid_def filter_empty_conv)

lemma stored_under_new: "stored_under MemStorage_new sid = []"
  by (simp add: stored_under_def MemStorage_new_def)

subsection \<open>The store along a sequence of operations\<close>

lemma run_ops_append: "run_ops (ops @ ops') this = run_ops ops' (run_ops ops this)"
  by (induction ops arbitrary: this) auto

lemma readings_append: "readings (ops @ ops') = readings ops @ readings ops'"
  by (simp add: readings_def)

lemma stored_under_updateSessionActivity:
  "stored_under (updateSessionActivity now i this) sid = stored_under this sid"
  by (simp add: stored_under_def chatMessages_updateSessionActivity)

lemma getChatSession_fresh: "fresh_uuid this u \<Longrightarrow> getChatSession this u = None"
  by (simp add: fresh_uuid_def getChatSession_def map_of_eq_None_iff)

lemma excess_apply_op:
  "op_fresh this op \<Longrightarrow>
   excess (apply_op op this) k = excess this k + (if bumps k op this then 1 else 0)"
proof (cases op)
  case (CreateChatSession u now ins)
  assume "op_fresh this op"
  then show ?thesis
    using CreateChatSession
    by (auto simp: excess_def getChatSession_createChatSession stored_under_createChatSession
          fst_createChatSession stored_under_fresh getChatSession_fresh split: option.splits)
next
  case (CreateChatMessage u now now' ins)
  assume "op_fresh this op"
  then show ?thesis
    using CreateChatMessage
    by (auto simp: excess_def getChatSession_createChatMessage stored_under_createChatMessage
          split: option.splits)
next
  case (UpdateSessionActivity now i)
  then show ?thesis
    by (auto simp: excess_def getChatSession_updateSessionActivity stored_under_updateSessionActivity
          split: option.splits)
qed

lemma excess_run_ops:
  "fresh_ops ops this \<Longrightarrow>
   excess (run_ops ops this) k = excess this k + int (direct_updates k ops this)"
  by (induction ops arbitrary: this) (auto simp: excess_apply_op)

lemma excess_new: "excess MemStorage_new k = 0"
  by (simp add: excess_def getChatSession_def MemStorage_new_def)

lemma direct_updates_none:
  "list_all (\<lambda>op. \<not> is_direct op) ops \<Longrightarrow> direct_updates k ops this = 0"
proof (induction ops arbitrary: this)
  case Nil
  then show ?case by simp
next
  case (Cons op ops)
  then show ?case by (cases op) auto
qed

lemma stored_under_apply_op:
  "op_fresh this op \<Longrightarrow>
   length (stored_under (apply_op op this) sid)
     = length (stored_under this sid) + (if appends_to sid op then 1 else 0)"
  by (cases op)
     (auto simp: stored_under_createChatSession stored_under_createChatMessage
        stored_under_updateSessionActivity)

lemma stored_under_run_ops:
  "fresh_ops ops this \<Longrightarrow>
   length (stored_under (run_ops ops this) sid)
     = length (stored_under this sid) + length (filter (appends_to sid) ops)"
  by (induction ops arbitrary: this) (auto simp: stored_under_apply_op)

lemma messages_apply_op:
  "op_fresh this op \<Longrightarrow>
   map snd (chatMessages (apply_op op this)) = map snd (chatMessages this) @ created_messages [op] this"
  by (cases op)
     (auto simp: chatMessages_createChatSession chatMessages_createChatMessage fresh_uuid_def
        update_fresh_key chatMessages_updateSessionActivity)

lemma created_messages_Cons:
  "created_messages (op # ops) this = created_messages [op] this @ created_messages ops (apply_op op this)"
  by (cases op) auto

lemma messages_run_ops:
  "fresh_ops ops this \<Longrightarrow>
   map snd (chatMessages (run_ops ops this)) = map snd (chatMessages this) @ created_messages ops this"
proof (induction ops arbitrary: this)
  case Nil
  then show ?case by simp
next
  case (Cons op ops)
  then show ?case
    using created_messages_Cons [of op ops this]
    by (simp add: messages_apply_op)
qed

lemma created_timestamps_subset:
  "set (map timestamp (created_messages ops this)) \<subseteq> set (readings ops)"
proof (induction ops arbitrary: this)
  case Nil
  then show ?case by simp
next
  case (Cons op ops)
  then show ?case
    by (cases op) (auto simp: readings_def fst_createChatMessage)
qed

lemma created_timestamps_sorted:
  "sorted (readings ops) \<Longrightarrow> sorted (map timestamp (created_messages ops this))"
proof (induction ops arbitrary: this)
  case Nil
  then show ?case by simp
next
  case (Cons op ops)
  show ?case
  proof (cases op)
    case (CreateChatSession u now ins)
    with Cons show ?thesis by (simp add: readings_def)
  next
    case (UpdateSessionActivity now i)
    with Cons show ?thesis by (simp add: readings_def)
  next
    case (CreateChatMessage u now now' ins)
    have sub: "set (map timestamp (created_messages ops (apply_op op this))) \<subseteq> set (readings ops)"
      by (rule created_timestamps_subset)
    from Cons.prems CreateChatMessage
    have "sorted (readings ops)" and "\<forall>x \<in> set (readings ops). now \<le> x"
      by (auto simp: readings_def)
    with Cons.IH [of "apply_op op this"] sub CreateChatMessage show ?thesis
      by (auto simp: fst_createChatMessage)
  qed
qed

lemma lastActivity_apply_op:
  "getChatSession (apply_op op this) k = Some s \<Longrightarrow>
   lastActivity s \<in> set (op_times op)
     \<or> (\<exists>s0. getChatSession this k = Some s0 \<and> lastActivity s0 = lastActivity s)"
  by (cases op)
     (auto simp: getChatSession_createChatSession getChatSession_createChatMessage fst_createChatSession
           getChatSession_updateSessionActivity split: if_splits)

lemma lastActivity_run_ops:
  "getChatSession (run_ops ops this) k = Some s \<Longrightarrow>
   lastActivity s \<in> set (readings ops)
     \<or> (\<exists>s0. getChatSession this k = Some s0 \<and> lastActivity s0 = lastActivity s)"
proof (induction ops arbitrary: this)
  case Nil
  then show ?case by simp
next
  case (Cons op ops)
  from Cons.IH [OF Cons.prems [simplified]]
  show ?case
    using lastActivity_apply_op [of op this k]
    by (fastforce simp: readings_def)
qed

lemma lastActivity_reachable:
  "getChatSession (run_ops ops MemStorage_new) k = Some s \<Longrightarrow> lastActivity s \<in> set (readings ops)"
  using lastActivity_run_ops [of ops MemStorage_new k s]
  by (simp add: getChatSession_def MemStorage_new_def)

lemma getMessages_reachable:
  assumes "fresh_ops ops MemStorage_new" and "sorted (readings ops)"
  shows "getMessagesBySessionId (run_ops ops MemStorage_new) sid
           = filter (\<lambda>m. sessionId m = sid) (created_messages ops MemStorage_new)"
proof -
  have all: "map snd (chatMessages (run_ops ops MemStorage_new)) = created_messages ops MemStorage_new"
    using messages_run_ops [OF assms(1)] by (simp add: MemStorage_new_def)
  have "sorted (map timestamp (filter (\<lambda>m. sessionId m = sid) (created_messages ops MemStorage_new)))"
    by (rule sorted_filter [OF created_timestamps_sorted [OF assms(2)]])
  then show ?thesis
    by (simp add: getMessagesBySessionId_def all sort_key_id_if_sorted)
qed

subsection \<open>The handlers\<close>

lemma safeParse_accepts:
  "(chatQueryRequestSchema_safeParse body \<noteq> None)
     = (1 \<le> length (query_req body) \<and> length (query_req body) \<le> 2000)"
  by (simp add: chatQueryRequestSchema_safeParse_def)

lemma chat_post_rejects_invalid_query:
  "\<not> (1 \<le> length (query_req body) \<and> length (query_req body) \<le> 2000) \<Longrightarrow>
   snd (chat_post env callMcpLlm authorization body storage) = storage
   \<and> (\<exists>status code message. fst (chat_post env callMcpLlm authorization body storage)
          = ErrorJson status code message \<and> (status = 400 \<or> status = 401))"
  by (auto simp: chat_post_def chatQueryRequestSchema_safeParse_def split: option.splits)

lemma chat_post_rejects_foreign_session:
  assumes "truthy_id (sessionId_req body) = Some sid"
      and "getChatSession storage sid = Some session"
      and "verifyToken (now_auth env) (now_auth_iat env) token = Some user"
      and "userId session \<noteq> sub user"
  shows "snd (chat_post env callMcpLlm (Some token) body storage) = storage"
    and "\<exists>status code message. fst (chat_post env callMcpLlm (Some token) body storage)
          = ErrorJson status code message"
  using assms
  by (auto simp: chat_post_def chat_post_session_def chatQueryRequestSchema_safeParse_def
      split: option.splits)

lemma slice_last_suffix:
  "suffix (slice_last n xs) xs" "length (slice_last n xs) = min n (length xs)"
  by (auto simp: slice_last_def suffix_drop)

lemma is_token_simps:
  "is_token (TokenEnv sid t)" "\<not> is_token (TypingEnv s)"
  "\<not> is_token (CompleteEnv sid mid ps md)" "\<not> is_token (ErrorEnv c m)"
  by (simp_all add: is_token_def)

lemma is_complete_simps:
  "\<not> is_complete (TokenEnv sid t)" "\<not> is_complete (TypingEnv s)"
  "is_complete (CompleteEnv sid mid ps md)" "\<not> is_complete (ErrorEnv c m)"
  by (simp_all add: is_complete_def)

lemma ws_send_tokens_all_tokens: "list_all is_token (ws_send_tokens readyOpen k sid ts)"
  by (induction ts arbitrary: k) (auto simp: is_token_simps)

lemma ws_send_tokens_open:
  "(\<forall>k. readyOpen k) \<Longrightarrow> ws_send_tokens readyOpen k sid ts = map (TokenEnv sid) ts"
  by (induction ts arbitrary: k) auto

lemma dropWhile_tokens:
  "list_all is_token xs \<Longrightarrow>
   dropWhile (\<lambda>e. \<not> is_complete e) (xs @ ys) = dropWhile (\<lambda>e. \<not> is_complete e) ys"
  by (induction xs) (auto simp: is_token_def is_complete_def split: Envelope.splits)

lemma dropWhile_send_tokens:
  "dropWhile (\<lambda>e. \<not> is_complete e) (ws_send_tokens readyOpen k sid ts @ ys)
     = dropWhile (\<lambda>e. \<not> is_complete e) ys"
  by (rule dropWhile_tokens [OF ws_send_tokens_all_tokens])

lemma ws_no_token_after_complete:
  "\<not> list_ex is_token
       (dropWhile (\<lambda>e. \<not> is_complete e) (fst (ws_on_message env callMcpLlm readyOpen msg storage)))"
  by (auto simp: ws_on_message_def Let_def is_complete_simps is_token_simps dropWhile_send_tokens
       split: option.splits prod.splits)

lemma ws_stream_all_open:
  assumes "type_msg msg = ''chat_query''" "token_msg msg = Some t"
    "verifyToken (now_auth env) (now_auth_iat env) t = Some user"
    "callMcpLlm (ws_llm_request user msg) = Some r" "\<forall>k. readyOpen k"
  shows "map token_text (filter is_token (fst (ws_on_message env callMcpLlm readyOpen msg storage)))
           = streamResponse (text_llm r)"
    and "is_complete (last (fst (ws_on_message env callMcpLlm readyOpen msg storage)))"
  using assms
  by (auto simp: ws_on_message_def Let_def is_complete_simps is_token_simps ws_send_tokens_open
        formatResponse_def filter_map comp_def token_text_def
       split: option.splits prod.splits)

section \<open>The claims\<close>

text \<open>
  Claim C1. A query that names a session owned by another principal must be
  rejected before any message is persisted for that session, on both ingress
  paths. The REST handler does so (\<open>chat_post_rejects_foreign_session\<close>). The
  WebSocket handler loads the session without comparing its owner with the
  authenticated subject: with the session \<open>s-other\<close> of \<open>user-999\<close> in the store
  and a token that authenticates \<open>user-123\<close>, it appends the user message and
  the reply to \<open>s-other\<close> and raises its message count to 2, where the REST
  handler answers 404 and leaves the store as it was.
\<close>

theorem ws_appends_to_foreign_session:
  "map_option userId (getChatSession other_store ''s-other'') = Some ''user-999''
   \<and> map_option sub (verifyToken (now_auth demo_env) (now_auth_iat demo_env) ''Bearer abc'') = Some ''user-123''
   \<and> getMessagesBySessionId other_store ''s-other'' = []
   \<and> map content (getMessagesBySessionId
                     (snd (ws_on_message demo_env hello_llm always_open other_msg other_store)) ''s-other'')
       = [''why?'', ''hello world'']
   \<and> map_option messageCount (getChatSession
                     (snd (ws_on_message demo_env hello_llm always_open other_msg other_store)) ''s-other'')
       = Some 2
   \<and> chat_post demo_env hello_llm (Some ''Bearer abc'') other_req other_store
       = (ErrorJson 404 ''SESSION_NOT_FOUND'' ''Chat session not found or access denied'', other_store)"
  by (simp add: demo_defs handler_defs store_defs)

text \<open>
  Claim C2, as stated: \<open>createChatMessage\<close> on a session id with no session signals
  NotFound and persists nothing. It fails on the empty store: the call returns
  the message, the message is in the store afterwards, and listing the
  messages of the absent session returns it.
\<close>

theorem createChatMessage_absent_session_counterexample:
  "getChatSession MemStorage_new ''s-none'' = None
   \<and> map content (map snd (chatMessages
         (snd (createChatMessage ''m1'' 5 6 (user_message ''s-none'' ''hi'') MemStorage_new)))) = [''hi'']
   \<and> map content (getMessagesBySessionId
         (snd (createChatMessage ''m1'' 5 6 (user_message ''s-none'' ''hi'') MemStorage_new)) ''s-none'')
       = [''hi'']"
  by (simp add: handler_defs store_defs)

text \<open>
  Claim C2, amended: \<open>createChatMessage\<close> on a session id with no session raises
  nothing; it stores the message under its new id and returns it, and leaves
  the sessions as they were. \<open>getChatSession\<close> on an id that is no key of the
  session map returns the absent value, and \<open>getMessagesBySessionId\<close> on an id
  that no stored message carries returns the empty list.
\<close>

theorem createChatMessage_absent_session:
  "(getChatSession this (sessionId ins) = None \<longrightarrow>
      getChatMessage (snd (createChatMessage u now now' ins this)) u
        = Some (fst (createChatMessage u now now' ins this))
    \<and> id_message (fst (createChatMessage u now now' ins this)) = u
    \<and> sessionId (fst (createChatMessage u now now' ins this)) = sessionId ins
    \<and> content (fst (createChatMessage u now now' ins this)) = content ins
    \<and> chatSessions (snd (createChatMessage u now now' ins this)) = chatSessions this)
   \<and> (sid \<notin> set (map fst (chatSessions this)) \<longrightarrow> getChatSession this sid = None)
   \<and> (sid \<notin> set (map (\<lambda>p. sessionId (snd p)) (chatMessages this)) \<longrightarrow>
        getMessagesBySessionId this sid = [])"
proof (intro conjI impI)
  show "getChatMessage (snd (createChatMessage u now now' ins this)) u
          = Some (fst (createChatMessage u now now' ins this))"
    by (simp add: getChatMessage_def chatMessages_createChatMessage update_conv')
  show "getChatSession this sid = None" if "sid \<notin> set (map fst (chatSessions this))"
    using that by (simp add: getChatSession_def map_of_eq_None_iff)
  show "getMessagesBySessionId this sid = []"
    if "sid \<notin> set (map (\<lambda>p. sessionId (snd p)) (chatMessages this))"
  proof -
    have "filter (\<lambda>message. sessionId message = sid) (map snd (chatMessages this)) = []"
      using that by (force simp: filter_empty_conv)
    then show ?thesis
      by (simp add: getMessagesBySessionId_def)
  qed
qed (simp_all add: fst_createChatMessage chatSessions_createChatMessage_absent)

theorem createChatMessage_absent_session_witness:
  "getChatSession MemStorage_new (sessionId (user_message ''s-none'' ''hi'')) = None
   \<and> ''s-none'' \<notin> set (map fst (chatSessions MemStorage_new))
   \<and> ''s-none'' \<notin> set (map (\<lambda>p. sessionId (snd p)) (chatMessages MemStorage_new))
   \<and> getChatMessage (snd (createChatMessage ''m1'' 5 6 (user_message ''s-none'' ''hi'') MemStorage_new)) ''m1''
       = Some (fst (createChatMessage ''m1'' 5 6 (user_message ''s-none'' ''hi'') MemStorage_new))
   \<and> chatSessions (snd (createChatMessage ''m1'' 5 6 (user_message ''s-none'' ''hi'') MemStorage_new)) = []
   \<and> getChatSession MemStorage_new ''s-none'' = None
   \<and> getMessagesBySessionId MemStorage_new ''s-none'' = []"
  using createChatMessage_absent_session
          [of MemStorage_new "user_message ''s-none'' ''hi''" "''m1''" 5 6 "''s-none''"]
  by (simp add: getChatSession_def MemStorage_new_def user_message_def)

text \<open>
  Claim C3, as stated: along every sequence of store operations the
  \<open>messageCount\<close> of a session equals the number of messages persisted under its
  id. It fails for the public method \<open>updateSessionActivity\<close> called on its own:
  after the session \<open>s1\<close> is created and the method is called on it once, the
  count is 1 and no message is stored under \<open>s1\<close>.
\<close>

theorem messageCount_direct_update_counterexample:
  "map_option messageCount
     (getChatSession (run_ops [CreateChatSession ''s1'' 5 demo_session, UpdateSessionActivity 9 ''s1'']
                        MemStorage_new) ''s1'') = Some 1
   \<and> getMessagesBySessionId
        (run_ops [CreateChatSession ''s1'' 5 demo_session, UpdateSessionActivity 9 ''s1''] MemStorage_new)
        ''s1'' = []
   \<and> map_option messageCount (getChatSession (updateSessionActivity 9 ''s1'' demo_store) ''s1'') = Some 1
   \<and> getMessagesBySessionId (updateSessionActivity 9 ''s1'' demo_store) ''s1'' = []"
  by (simp add: demo_store_def demo_session_def store_defs)

text \<open>
  Claim C3, amended. Along every sequence of \<open>createChatSession\<close>,
  \<open>createChatMessage\<close> and \<open>updateSessionActivity\<close> calls that starts from the empty
  store, each identifier drawn being fresh, the \<open>messageCount\<close> of every session
  equals the number of messages stored under its id plus the number of direct
  \<open>updateSessionActivity\<close> calls that took effect on it, and the number of
  messages is the number of appends made to that id. So when
  \<open>updateSessionActivity\<close> is only reached through \<open>createChatMessage\<close>, the
  count equals the number of messages, and after N appends it equals N.
\<close>

theorem messageCount_counts_messages:
  assumes "fresh_ops ops MemStorage_new"
      and "getChatSession (run_ops ops MemStorage_new) sid = Some session"
  shows "messageCount session
           = int (length (getMessagesBySessionId (run_ops ops MemStorage_new) sid))
             + int (direct_updates sid ops MemStorage_new)
       \<and> length (getMessagesBySessionId (run_ops ops MemStorage_new) sid)
           = length (filter (appends_to sid) ops)
       \<and> (list_all (\<lambda>op. \<not> is_direct op) ops \<longrightarrow>
            messageCount session = int (length (getMessagesBySessionId (run_ops ops MemStorage_new) sid))
          \<and> messageCount session = int (length (filter (appends_to sid) ops)))"
proof -
  have n: "length (getMessagesBySessionId (run_ops ops MemStorage_new) sid)
             = length (filter (appends_to sid) ops)"
    using stored_under_run_ops [OF assms(1), of sid]
    by (simp add: getMessagesBySessionId_stored stored_under_new)
  have "excess (run_ops ops MemStorage_new) sid = int (direct_updates sid ops MemStorage_new)"
    using excess_run_ops [OF assms(1), of sid] by (simp add: excess_new)
  with assms(2)
  have c: "messageCount session
             = int (length (getMessagesBySessionId (run_ops ops MemStorage_new) sid))
               + int (direct_updates sid ops MemStorage_new)"
    by (simp add: excess_def getMessagesBySessionId_stored)
  show ?thesis
    using n c by (auto simp: direct_updates_none)
qed

theorem messageCount_counts_messages_witness:
  "fresh_ops demo_ops MemStorage_new
   \<and> getChatSession (run_ops demo_ops MemStorage_new) ''s1'' = Some demo_after
   \<and> list_all (\<lambda>op. \<not> is_direct op) demo_ops
   \<and> messageCount demo_after = 2
   \<and> length (getMessagesBySessionId (run_ops demo_ops MemStorage_new) ''s1'') = 2
   \<and> length (filter (appends_to ''s1'') demo_ops) = 2
   \<and> fresh_ops direct_ops MemStorage_new
   \<and> getChatSession (run_ops direct_ops MemStorage_new) ''s1'' = Some direct_after
   \<and> messageCount direct_after = 2
   \<and> length (getMessagesBySessionId (run_ops direct_ops MemStorage_new) ''s1'') = 1
   \<and> direct_updates ''s1'' direct_ops MemStorage_new = 1"
proof -
  have f: "fresh_ops demo_ops MemStorage_new"
    by (simp add: demo_ops_def demo_session_def user_message_def fresh_uuid_def store_defs)
  have s: "getChatSession (run_ops demo_ops MemStorage_new) ''s1'' = Some demo_after"
    by (simp add: demo_ops_def demo_session_def demo_after_def user_message_def store_defs)
  have d: "list_all (\<lambda>op. \<not> is_direct op) demo_ops"
    by (simp add: demo_ops_def)
  have f': "fresh_ops direct_ops MemStorage_new"
    by (simp add: direct_ops_def demo_session_def user_message_def fresh_uuid_def store_defs)
  have s': "getChatSession (run_ops direct_ops MemStorage_new) ''s1'' = Some direct_after"
    by (simp add: direct_ops_def demo_session_def direct_after_def user_message_def store_defs)
  have u: "direct_updates ''s1'' direct_ops MemStorage_new = 1"
    by (simp add: direct_ops_def demo_session_def user_message_def store_defs)
  show ?thesis
    using f s d f' s' u
      messageCount_counts_messages [OF f s] messageCount_counts_messages [OF f' s']
    by (simp add: demo_after_def direct_after_def)
qed

text \<open>
  Claim C4, as stated: on an existing session the new message's timestamp is
  strictly greater than the session's \<open>lastActivity\<close>, \<open>lastActivity\<close> becomes
  exactly that timestamp, and the messages list in strictly increasing
  timestamp order. It fails when clock readings coincide or differ between
  the two reads of one append: appended at reading 5 to a session created at
  reading 5, the message's timestamp is not greater than \<open>lastActivity\<close>; with the
  second reading 6, \<open>lastActivity\<close> becomes 6 and not the timestamp 5; and two
  appends within one millisecond list with equal timestamps.
\<close>

theorem createChatMessage_timestamp_counterexample:
  "map_option lastActivity (getChatSession demo_store ''s1'') = Some 5
   \<and> \<not> 5 < timestamp (fst (createChatMessage ''m1'' 5 6 (user_message ''s1'' ''hi'') demo_store))
   \<and> map_option lastActivity
         (getChatSession (snd (createChatMessage ''m1'' 5 6 (user_message ''s1'' ''hi'') demo_store)) ''s1'')
       \<noteq> Some (timestamp (fst (createChatMessage ''m1'' 5 6 (user_message ''s1'' ''hi'') demo_store)))
   \<and> \<not> sorted_wrt (<) (map timestamp (getMessagesBySessionId (run_ops same_ms_ops MemStorage_new) ''s1''))"
  by (simp add: demo_defs user_message_def store_defs)

text \<open>
  Claim C4, amended. For every \<open>createChatMessage\<close> on an existing session the
  new message's timestamp is the clock reading of the call, \<open>messageCount\<close> is
  incremented by exactly one, and \<open>lastActivity\<close> becomes the second clock
  reading, which \<open>updateSessionActivity\<close> takes. In a store reached from the
  empty one under a clock that never goes back, the timestamp is at least the
  session's \<open>lastActivity\<close> and at most the new one; and when moreover the
  identifiers are fresh, \<open>getMessagesBySessionId\<close> returns the session's
  messages in append order, their timestamps non-decreasing.
\<close>

theorem createChatMessage_existing_session:
  "(getChatSession this (sessionId ins) = Some session \<longrightarrow>
      timestamp (fst (createChatMessage uuid now now' ins this)) = now
    \<and> map_option messageCount
         (getChatSession (snd (createChatMessage uuid now now' ins this)) (sessionId ins))
        = Some (messageCount session + 1)
    \<and> map_option lastActivity
         (getChatSession (snd (createChatMessage uuid now now' ins this)) (sessionId ins))
        = Some now')
   \<and> (sorted (readings (ops @ [CreateChatMessage uuid now now' ins]))
      \<and> getChatSession (run_ops ops MemStorage_new) (sessionId ins) = Some session' \<longrightarrow>
        lastActivity session' \<le> now \<and> now \<le> now')
   \<and> (fresh_ops ops' MemStorage_new \<and> sorted (readings ops') \<longrightarrow>
        getMessagesBySessionId (run_ops ops' MemStorage_new) sid
          = filter (\<lambda>m. sessionId m = sid) (created_messages ops' MemStorage_new)
      \<and> sorted (map timestamp (getMessagesBySessionId (run_ops ops' MemStorage_new) sid)))"
proof (intro conjI impI)
  assume "sorted (readings (ops @ [CreateChatMessage uuid now now' ins]))
      \<and> getChatSession (run_ops ops MemStorage_new) (sessionId ins) = Some session'"
  then have "sorted (readings ops @ [now, now'])"
    and "lastActivity session' \<in> set (readings ops)"
    by (auto simp: readings_append readings_def dest: lastActivity_reachable)
  then show "lastActivity session' \<le> now" and "now \<le> now'"
    by (auto simp: sorted_append)
qed (auto simp: fst_createChatMessage getChatSession_createChatMessage getMessages_reachable
      sorted_filter created_timestamps_sorted)

theorem createChatMessage_existing_session_witness:
  "getChatSession demo_store (sessionId (user_message ''s1'' ''hi'')) = Some demo_created
   \<and> sorted (readings ([CreateChatSession ''s1'' 5 demo_session]
                        @ [CreateChatMessage ''m1'' 6 7 (user_message ''s1'' ''hi'')]))
   \<and> getChatSession (run_ops [CreateChatSession ''s1'' 5 demo_session] MemStorage_new)
        (sessionId (user_message ''s1'' ''hi'')) = Some demo_created
   \<and> fresh_ops demo_ops MemStorage_new \<and> sorted (readings demo_ops)
   \<and> timestamp (fst (createChatMessage ''m1'' 6 7 (user_message ''s1'' ''hi'') demo_store)) = 6
   \<and> map_option messageCount
        (getChatSession (snd (createChatMessage ''m1'' 6 7 (user_message ''s1'' ''hi'') demo_store)) ''s1'')
       = Some 1
   \<and> map_option lastActivity
        (getChatSession (snd (createChatMessage ''m1'' 6 7 (user_message ''s1'' ''hi'') demo_store)) ''s1'')
       = Some 7
   \<and> lastActivity demo_created \<le> 6
   \<and> map content (getMessagesBySessionId (run_ops demo_ops MemStorage_new) ''s1'') = [''hi'', ''again'']
   \<and> sorted (map timestamp (getMessagesBySessionId (run_ops demo_ops MemStorage_new) ''s1''))"
proof -
  have a: "getChatSession demo_store (sessionId (user_message ''s1'' ''hi'')) = Some demo_created"
    by (simp add: demo_defs user_message_def store_defs)
  have b: "sorted (readings ([CreateChatSession ''s1'' 5 demo_session]
                        @ [CreateChatMessage ''m1'' 6 7 (user_message ''s1'' ''hi'')]))"
    by (simp add: readings_def)
  have c: "fresh_ops demo_ops MemStorage_new"
    by (simp add: demo_ops_def demo_session_def user_message_def fresh_uuid_def store_defs)
  have d: "sorted (readings demo_ops)"
    by (simp add: demo_ops_def readings_def)
  have e: "map content (filter (\<lambda>m. sessionId m = ''s1'') (created_messages demo_ops MemStorage_new))
             = [''hi'', ''again'']"
    by (simp add: demo_ops_def demo_session_def user_message_def store_defs)
  note t = createChatMessage_existing_session
        [where this = demo_store and ins = "user_message ''s1'' ''hi''" and session = demo_created
           and uuid = "''m1''" and now = 6 and now' = 7
           and ops = "[CreateChatSession ''s1'' 5 demo_session]" and session' = demo_created
           and ops' = demo_ops and sid = "''s1''"]
  from t a have r1:
    "timestamp (fst (createChatMessage ''m1'' 6 7 (user_message ''s1'' ''hi'') demo_store)) = 6
     \<and> map_option messageCount
          (getChatSession (snd (createChatMessage ''m1'' 6 7 (user_message ''s1'' ''hi'') demo_store))
             (sessionId (user_message ''s1'' ''hi'')))
         = Some (messageCount demo_created + 1)
     \<and> map_option lastActivity
          (getChatSession (snd (createChatMessage ''m1'' 6 7 (user_message ''s1'' ''hi'') demo_store))
             (sessionId (user_message ''s1'' ''hi'')))
         = Some 7"
    by blast
  from t a b have r2: "lastActivity demo_created \<le> 6"
    unfolding demo_store_def by blast
  from t c d have r3:
    "getMessagesBySessionId (run_ops demo_ops MemStorage_new) ''s1''
       = filter (\<lambda>m. sessionId m = ''s1'') (created_messages demo_ops MemStorage_new)
     \<and> sorted (map timestamp (getMessagesBySessionId (run_ops demo_ops MemStorage_new) ''s1''))"
    by blast
  from r1 have r1': "timestamp (fst (createChatMessage ''m1'' 6 7 (user_message ''s1'' ''hi'') demo_store)) = 6
     \<and> map_option messageCount
          (getChatSession (snd (createChatMessage ''m1'' 6 7 (user_message ''s1'' ''hi'') demo_store)) ''s1'')
         = Some 1
     \<and> map_option lastActivity
          (getChatSession (snd (createChatMessage ''m1'' 6 7 (user_message ''s1'' ''hi'') demo_store)) ''s1'')
         = Some 7"
    by (simp add: user_message_def demo_created_def)
  from a have a': "getChatSession (run_ops [CreateChatSession ''s1'' 5 demo_session] MemStorage_new)
        (sessionId (user_message ''s1'' ''hi'')) = Some demo_created"
    by (simp add: demo_store_def)
  from r3 e have r3': "map content (getMessagesBySessionId (run_ops demo_ops MemStorage_new) ''s1'')
       = [''hi'', ''again'']"
    by simp
  show ?thesis
    using a b a' c d r1' r2 r3' r3 by blast
qed

text \<open>
  Claim C5, as stated: concatenating the streamed tokens gives back the source
  text. It fails on \<open>hello world\<close>: the tokens concatenate to the text followed
  by a space.
\<close>

theorem streamResponse_concat_counterexample:
  "concat (streamResponse ''hello world'') = ''hello world ''
   \<and> concat (streamResponse ''hello world'') \<noteq> ''hello world''"
  by (simp add: streamResponse_def)

text \<open>
  Claim C5, amended. The tokens \<open>streamResponse\<close> yields are the pieces of the
  text between its space characters, none of which contains a space, each
  with one space appended; concatenated in order they give the text followed
  by one space. The text \<open>hello world\<close> yields exactly \<open>hello \<close> then \<open>world \<close>.
  The handler sends no \<open>token\<close> envelope after a \<open>complete\<close> one; on a connection
  that stays open it sends one \<open>token\<close> envelope per yielded token, in order,
  and the \<open>complete\<close> envelope last.
\<close>

theorem streamResponse_tokens:
  "streamResponse s = map (\<lambda>word. word @ '' '') (split_str s (CHR '' ''))
   \<and> list_all (\<lambda>word. CHR '' '' \<notin> set word) (split_str s (CHR '' ''))
   \<and> concat (streamResponse s) = s @ '' ''
   \<and> streamResponse ''hello world'' = [''hello '', ''world '']
   \<and> \<not> list_ex is_token
         (dropWhile (\<lambda>e. \<not> is_complete e) (fst (ws_on_message env callMcpLlm readyOpen msg storage)))
   \<and> (type_msg msg = ''chat_query'' \<and> token_msg msg = Some t
        \<and> verifyToken (now_auth env) (now_auth_iat env) t = Some user
        \<and> callMcpLlm (ws_llm_request user msg) = Some r \<and> (\<forall>k. readyOpen k) \<longrightarrow>
        map token_text (filter is_token (fst (ws_on_message env callMcpLlm readyOpen msg storage)))
          = streamResponse (text_llm r)
      \<and> is_complete (last (fst (ws_on_message env callMcpLlm readyOpen msg storage))))"
proof (intro conjI impI)
  show "concat (streamResponse s) = s @ '' ''"
    using concat_split_str [of "CHR '' ''" s] by (simp add: streamResponse_def)
  show "list_all (\<lambda>word. CHR '' '' \<notin> set word) (split_str s (CHR '' ''))"
    by (auto simp: list_all_iff dest: split_str_no_sep)
  show "streamResponse ''hello world'' = [''hello '', ''world '']"
    by (simp add: streamResponse_def)
qed (simp_all add: streamResponse_def ws_no_token_after_complete ws_stream_all_open)

theorem streamResponse_tokens_witness:
  "type_msg (ws_query ''why?'') = ''chat_query'' \<and> token_msg (ws_query ''why?'') = Some ''Bearer abc''
   \<and> verifyToken (now_auth demo_env) (now_auth_iat demo_env) ''Bearer abc'' = Some demo_user
   \<and> hello_llm (ws_llm_request demo_user (ws_query ''why?'')) = Some hello_response
   \<and> (\<forall>k. always_open k)
   \<and> map token_text (filter is_token
        (fst (ws_on_message demo_env hello_llm always_open (ws_query ''why?'') MemStorage_new)))
       = [''hello '', ''world '']
   \<and> is_complete (last (fst (ws_on_message demo_env hello_llm always_open (ws_query ''why?'') MemStorage_new)))
   \<and> concat (streamResponse ''hello world'') = ''hello world ''"
proof -
  have a: "verifyToken (now_auth demo_env) (now_auth_iat demo_env) ''Bearer abc'' = Some demo_user"
    by (simp add: demo_env_def demo_user_def verifyToken_def startsWith_def)
  have b: "hello_llm (ws_llm_request demo_user (ws_query ''why?'')) = Some hello_response"
    by (simp add: hello_llm_def hello_response_def)
  show ?thesis
    using a b
      streamResponse_tokens [where s = "''hello world''" and env = demo_env and callMcpLlm = hello_llm
          and readyOpen = always_open and msg = "ws_query ''why?''" and storage = MemStorage_new
          and t = "''Bearer abc''" and user = demo_user and r = hello_response]
    by (simp add: ws_query_def always_open_def hello_response_def)
qed

text \<open>
  Claim C6. \<open>detectIntent\<close> is a function of the query text alone; it returns
  the label of the first rule of the ordered rule list one of whose keywords
  occurs in the lower-cased query, and \<open>GUIDE\<close> when no rule matches. Queries
  that differ only in letter case get the same intent, and a query that
  contains both \<open>help\<close> and \<open>why\<close> is classified \<open>EXPLAIN\<close>.
\<close>

theorem detectIntent_first_match:
  "detectIntent q = classify q
   \<and> (toLowerCase q = toLowerCase q' \<longrightarrow> detectIntent q = detectIntent q')
   \<and> (includes_str (toLowerCase q) ''help'' \<and> includes_str (toLowerCase q) ''why'' \<longrightarrow>
        detectIntent q = EXPLAIN)
   \<and> (find (rule_matches q) intent_rules = None \<longrightarrow> detectIntent q = GUIDE)"
  by (simp add: detectIntent_def classify_def intent_rules_def rule_matches_def Let_def)

theorem detectIntent_first_match_witness:
  "toLowerCase ''Help me: WHY?'' = toLowerCase ''help me: why?''
   \<and> includes_str (toLowerCase ''Help me: WHY?'') ''help''
   \<and> includes_str (toLowerCase ''Help me: WHY?'') ''why''
   \<and> detectIntent ''Help me: WHY?'' = EXPLAIN
   \<and> detectIntent ''help me: why?'' = EXPLAIN
   \<and> find (rule_matches ''Good morning'') intent_rules = None
   \<and> detectIntent ''Good morning'' = GUIDE"
proof -
  have a: "toLowerCase ''Help me: WHY?'' = ''help me: why?''"
    by code_simp
  have b: "toLowerCase ''help me: why?'' = ''help me: why?''"
    by code_simp
  have c: "includes_str ''help me: why?'' ''help''" "includes_str ''help me: why?'' ''why''"
    by code_simp+
  have d: "find (rule_matches ''Good morning'') intent_rules = None"
    by code_simp
  show ?thesis
    using detectIntent_first_match [of "''Help me: WHY?''" "''help me: why?''"]
          detectIntent_first_match [of "''Good morning''" "''Good morning''"]
    by (auto simp: a b c d)
qed

text \<open>
  Claim C7. \<open>enrichContext\<close> returns the client context with \<open>userRole\<close> set to the
  role it is given, whatever the client supplied there; every other field
  (page, pageType, entityIds, metricIds, reportId, userAction) is the client's.
  Both handlers pass the role of the authenticated principal.
\<close>

theorem enrichContext_userRole:
  "userRole (enrichContext q c r org) = Some r
   \<and> page (enrichContext q c r org) = page c
   \<and> pageType (enrichContext q c r org) = pageType c
   \<and> entityIds (enrichContext q c r org) = entityIds c
   \<and> metricIds (enrichContext q c r org) = metricIds c
   \<and> reportId (enrichContext q c r org) = reportId c
   \<and> userAction (enrichContext q c r org) = userAction c
   \<and> enrichContext q c r org = c \<lparr> userRole := Some r \<rparr>
   \<and> userRole (context_llm (chat_post_llm_request user queryRequest session storage)) = Some (role_jwt user)
   \<and> userRole (context_llm (ws_llm_request user msg)) = Some (role_jwt user)"
  by (simp add: enrichContext_def chat_post_llm_request_def ws_llm_request_def)

text \<open>
  Claim C8. A query is accepted only with a length from 1 to 2000, on both
  ingress paths. The REST handler validates (\<open>safeParse_accepts\<close>,
  \<open>chat_post_rejects_invalid_query\<close>): the empty query and a query of 2001
  characters get the 400 reply and the store is left as it was. The WebSocket
  handler does not validate: on the empty store it creates a session for the
  empty query and persists it, and likewise for the query of 2001 characters.
\<close>

theorem ws_accepts_invalid_query:
  "chat_post demo_env hello_llm (Some ''Bearer abc'') (rest_query []) MemStorage_new
     = (ErrorJson 400 ''INVALID_QUERY'' ''Invalid request format'', MemStorage_new)
   \<and> chat_post demo_env hello_llm (Some ''Bearer abc'') (rest_query long_query) MemStorage_new
     = (ErrorJson 400 ''INVALID_QUERY'' ''Invalid request format'', MemStorage_new)
   \<and> map fst (chatSessions (snd (ws_on_message demo_env hello_llm always_open (ws_query []) MemStorage_new)))
     = [''s-new'']
   \<and> map content (getMessagesBySessionId
         (snd (ws_on_message demo_env hello_llm always_open (ws_query []) MemStorage_new)) ''s-new'')
     = [[], ''hello world'']
   \<and> map (\<lambda>m. length (content m)) (getMessagesBySessionId
         (snd (ws_on_message demo_env hello_llm always_open (ws_query long_query) MemStorage_new)) ''s-new'')
     = [2001, 11]"
  by (simp add: demo_defs long_query_def handler_defs store_defs)

text \<open>
  Claim C9. The history handed to the response generator is the last 10
  messages of the session, oldest first, on both paths. The REST handler
  builds it so. The WebSocket handler hands over the empty history on every
  run, although the session then holds at least the user message just
  persisted: with a generator that spells out the history it receives, a
  first query \<open>why?\<close> is answered \<open>user:why?\<close> over REST and with the empty text
  over the WebSocket.
\<close>

theorem ws_history_empty:
  "sessionHistory (ws_llm_request user msg) = []
   \<and> sessionHistory (chat_post_llm_request user queryRequest session storage)
       = map (\<lambda>m. (role m, content m))
           (slice_last 10 (getMessagesBySessionId storage (id_session session)))
   \<and> map content (getMessagesBySessionId
         (snd (chat_post demo_env echo_llm (Some ''Bearer abc'') (rest_query ''why?'') MemStorage_new)) ''s-new'')
       = [''why?'', ''user:why?'']
   \<and> map content (getMessagesBySessionId
         (snd (ws_on_message demo_env echo_llm always_open (ws_query ''why?'') MemStorage_new)) ''s-new'')
       = [''why?'', []]"
  by (simp add: ws_llm_request_def chat_post_llm_request_def)
     (simp add: demo_defs handler_defs store_defs)

text \<open>
  Claim C10. \<open>verifyToken\<close> returns a principal exactly for the strings that
  start with \<open>Bearer \<close>, and for each of them the same one: subject
  \<open>user-123\<close>, organization \<open>org-456\<close>, role \<open>ESG_ANALYST\<close>. Two accepted tokens
  give equal payloads at the same clock readings, and at different readings
  payloads that differ in \<open>exp\<close> and \<open>iat\<close> only.
\<close>

theorem verifyToken_bearer:
  "(verifyToken now now' token \<noteq> None) = startsWith token ''Bearer ''
   \<and> (startsWith token ''Bearer '' \<longrightarrow>
        map_option (\<lambda>p. (sub p, org_id p, role_jwt p)) (verifyToken now now' token)
          = Some (''user-123'', ''org-456'', ESG_ANALYST))
   \<and> (startsWith token ''Bearer '' \<and> startsWith token' ''Bearer '' \<longrightarrow>
        verifyToken now now' token = verifyToken now now' token'
        \<and> map_option principal_of (verifyToken now now' token)
            = map_option principal_of (verifyToken later later' token'))"
  by (auto simp: verifyToken_def startsWith_def principal_of_def)

theorem verifyToken_bearer_witness:
  "startsWith ''Bearer alice'' ''Bearer '' \<and> startsWith ''Bearer bob'' ''Bearer ''
   \<and> verifyToken 1000 1001 ''Bearer alice'' \<noteq> None
   \<and> verifyToken 1000 1001 ''Bearer alice'' = verifyToken 1000 1001 ''Bearer bob''
   \<and> map_option principal_of (verifyToken 1000 1001 ''Bearer alice'')
       = map_option principal_of (verifyToken 999000 999999 ''Bearer bob'')
   \<and> \<not> startsWith ''bearer alice'' ''Bearer ''
   \<and> verifyToken 1000 1001 ''bearer alice'' = None"
  using verifyToken_bearer [where now = 1000 and now' = 1001 and token = "''Bearer alice''"
                              and token' = "''Bearer bob''" and later = 999000 and later' = 999999]
        verifyToken_bearer [where now = 1000 and now' = 1001 and token = "''bearer alice''"]
  by (auto simp: startsWith_def)

end
